theory Spec2Isabelle
  imports Main
begin

section \<open>Python values, errors and strings\<close>

text \<open>
  The module \<^verbatim>\<open>sunpy/net/dataretriever/client.py\<close> is embedded function by
  function. A Python exception is a value of \<open>error\<close>; a function that may raise
  returns \<open>error + 'a\<close> with \<open>Inl\<close> for the exception. A method that mutates
  \<^verbatim>\<open>self.map_\<close> takes the dictionary and returns it updated next to its outcome,
  so that the mutations made before an exception are kept, as in Python.

  The exceptions are named as Python names them. The design document's names are
  \<^verbatim>\<open>UnsupportedConstraintKind\<close> for the \<open>ValueError\<close> raised by
  \<^verbatim>\<open>_makeargs\<close>, \<^verbatim>\<open>EmptySetError\<close> for the \<open>ValueError\<close> raised by
  \<^verbatim>\<open>min()\<close> on an empty sequence, \<^verbatim>\<open>MissingTemplateFieldError\<close> for the
  \<open>KeyError\<close> of \<^verbatim>\<open>str.format\<close>, and \<^verbatim>\<open>AbstractMethodNotImplemented\<close>
  for \<open>NotImplementedError\<close>.
\<close>

datatype error =
    ValueError string
  | TypeError string
  | KeyError string
  | IndexError string
  | AttributeError string
  | UnboundLocalError string
  | NotImplementedError

type_synonym 'a result = "error + 'a"

text \<open>
  Modelled from the spec: \<^verbatim>\<open>sunpy.time.TimeRange\<close> is imported by the module and
  defined elsewhere. The design document describes it as a time interval with a start
  and an end; \<open>TimeRange a b\<close> is that interval, read back by \<open>tr_start\<close> and
  \<open>tr_end\<close> (Python's \<^verbatim>\<open>.start\<close> and \<^verbatim>\<open>.end\<close>).
\<close>

datatype 't timerange = TimeRange (tr_start: 't) (tr_end: 't)

text \<open>
  The values kept in \<^verbatim>\<open>map_\<close>: strings, time points, time ranges, the values
  carried by query attributes (of an arbitrary type \<open>'v\<close>, compared by \<open>=\<close> where
  Python compares by \<^verbatim>\<open>==\<close>), the \<^verbatim>\<open>minmax\<close> named tuple (its fields in
  order, each with its name), and \<^verbatim>\<open>np.NaN\<close>.
\<close>

datatype ('t, 'v) pyval =
    PyStr string
  | PyTime 't
  | PyTimeRange "'t timerange"
  | PyAttr 'v
  | PyNamedTuple string "(string \<times> 'v) list"
  | PyNaN

type_synonym ('t, 'v) pydict = "string \<rightharpoonup> ('t, 'v) pyval"

text \<open>\<^verbatim>\<open>str.lower()\<close> on ASCII text.\<close>

definition lower_char :: "char \<Rightarrow> char" where
  "lower_char c =
     (case map_of (zip ''ABCDEFGHIJKLMNOPQRSTUVWXYZ'' ''abcdefghijklmnopqrstuvwxyz'') c of
        Some d \<Rightarrow> d
      | None \<Rightarrow> c)"

definition py_lower :: "string \<Rightarrow> string" where
  "py_lower s = map lower_char s"

text \<open>
  \<^verbatim>\<open>str.split()\<close> with no argument, for text whose only whitespace is the space
  character: the maximal runs of non-space characters, in order. The first argument is
  the word being read.
\<close>

fun split_ws :: "string \<Rightarrow> string \<Rightarrow> string list" where
  "split_ws w [] = (if w = [] then [] else [w])"
| "split_ws w (c # cs) =
     (if c = CHR '' ''
      then (if w = [] then split_ws [] cs else w # split_ws [] cs)
      else split_ws (w @ [c]) cs)"

text \<open>
  \<^verbatim>\<open>s.split(sep)\<close> for a separator of one character: the pieces between the
  separators, never an empty list. The first argument is the piece being read.
\<close>

fun split_on :: "char \<Rightarrow> string \<Rightarrow> string \<Rightarrow> string list" where
  "split_on sep w [] = [w]"
| "split_on sep w (c # cs) =
     (if c = sep then w # split_on sep [] cs else split_on sep (w @ [c]) cs)"

text \<open>\<^verbatim>\<open>sub in s\<close> for strings.\<close>

fun py_in :: "string \<Rightarrow> string \<Rightarrow> bool" where
  "py_in sub [] = (sub = [])"
| "py_in sub (c # cs) = (take (length sub) (c # cs) = sub \<or> py_in sub cs)"

text \<open>\<^verbatim>\<open>os.path.join(a, b)\<close> of \<^verbatim>\<open>posixpath\<close>, for two components.\<close>

definition path_join :: "string \<Rightarrow> string \<Rightarrow> string" where
  "path_join a b =
     (if take 1 b = ''/'' then b
      else if a = [] \<or> last a = CHR ''/'' then a @ b
      else a @ ''/'' @ b)"

section \<open>Query attributes and \<^verbatim>\<open>GenericClient._makeargs\<close>\<close>

text \<open>
  The attribute classes (\<^verbatim>\<open>sunpy.net.vso.attrs\<close>) are outside the module;
  \<^verbatim>\<open>_makeargs\<close> looks at an attribute only through the tests below, taken in
  this order, and an attribute is the constructor of the first test it passes:
  \<^item> \<open>TimeAttr start end\<close>: \<^verbatim>\<open>isinstance(elem, Time)\<close>;
  \<^item> \<open>RangeAttr cls wl min max\<close>: not a \<^verbatim>\<open>Time\<close>, \<^verbatim>\<open>isinstance(elem, _Range)\<close>;
    \<open>cls\<close> is \<^verbatim>\<open>elem.__class__.__name__\<close> and \<open>wl\<close> is
    \<^verbatim>\<open>isinstance(elem, Wavelength)\<close>;
  \<^item> \<open>ValueAttr cls value\<close>: neither, and \<^verbatim>\<open>hasattr(elem, 'value')\<close>;
  \<^item> \<open>OtherAttr cls\<close>: none of these.
\<close>

datatype ('t, 'v) attr =
    TimeAttr 't 't
  | RangeAttr string bool 'v 'v
  | ValueAttr string 'v
  | OtherAttr string

text \<open>
  \<^verbatim>\<open>namedtuple("minmax", "{0}min {0}max".format(prefix))\<close> applied to
  \<^verbatim>\<open>(a_min, a_max)\<close>: the field names are the words of the formatted string.
\<close>

definition minmax :: "string \<Rightarrow> 'v \<Rightarrow> 'v \<Rightarrow> ('t, 'v) pyval" where
  "minmax prefix a_min a_max =
     PyNamedTuple ''minmax'' (zip (split_ws [] (prefix @ ''min '' @ prefix @ ''max'')) [a_min, a_max])"

definition unsupported_msg :: "string \<Rightarrow> string" where
  "unsupported_msg cls =
     ''GenericClient can not add '' @ cls @ '' to the map_ dictionary to pass to the Client.''"

text \<open>The body of the loop of \<^verbatim>\<open>_makeargs\<close>, for one \<^verbatim>\<open>elem\<close>.\<close>

fun makeargs_elem ::
  "('t, 'v) pydict \<Rightarrow> ('t, 'v) attr \<Rightarrow> unit result \<times> ('t, 'v) pydict" where
  "makeargs_elem m (TimeAttr start end') =
     (Inr (), m(''TimeRange'' \<mapsto> PyTimeRange (TimeRange start end'),
                   ''Time_start'' \<mapsto> PyTime start,
                   ''Time_end'' \<mapsto> PyTime end'))"
| "makeargs_elem m (RangeAttr cls wl a_min a_max) =
     (if a_min = a_max then (Inr (), m(py_lower cls \<mapsto> PyAttr a_min))
      else (let prefix = (if wl then ''wave'' else '''')
            in (Inr (), m(py_lower cls \<mapsto> minmax prefix a_min a_max))))"
| "makeargs_elem m (ValueAttr cls v) = (Inr (), m(py_lower cls \<mapsto> PyAttr v))"
| "makeargs_elem m (OtherAttr cls) = (Inl (ValueError (unsupported_msg cls)), m)"

text \<open>The loop \<^verbatim>\<open>for elem in args\<close>: it stops at the first exception.\<close>

fun makeargs_loop ::
  "('t, 'v) pydict \<Rightarrow> ('t, 'v) attr list \<Rightarrow> unit result \<times> ('t, 'v) pydict" where
  "makeargs_loop m [] = (Inr (), m)"
| "makeargs_loop m (elem # args) =
     (case makeargs_elem m elem of
        (Inl err, m') \<Rightarrow> (Inl err, m')
      | (Inr _, m') \<Rightarrow> makeargs_loop m' args)"

text \<open>
  The methods a concrete client supplies. In \<^verbatim>\<open>GenericClient\<close> itself
  \<^verbatim>\<open>_makeimap\<close> and \<^verbatim>\<open>_get_url_for_timerange\<close> raise
  \<open>NotImplementedError\<close> and \<^verbatim>\<open>_get_time_for_url\<close> returns
  \<^verbatim>\<open>NotImplemented\<close>; subclasses override them, so they are parameters here.
  \<^verbatim>\<open>_makeimap\<close> updates \<^verbatim>\<open>self.map_\<close>; \<^verbatim>\<open>_get_url_for_timerange\<close> is a
  class method and receives the time range and the keyword dictionary;
  \<^verbatim>\<open>_get_time_for_url\<close> may read \<^verbatim>\<open>self.map_\<close> and receives the URLs.
\<close>

datatype 't times = NotImplemented | Times "'t timerange option list"

record ('t, 'v) strategy =
  makeimap :: "('t, 'v) pydict \<Rightarrow> unit result \<times> ('t, 'v) pydict"
  get_url_for_timerange ::
    "('t, 'v) pyval option \<Rightarrow> ('t, 'v) pydict \<Rightarrow> string list result"
  get_time_for_url :: "('t, 'v) pydict \<Rightarrow> string list \<Rightarrow> 't times result"

definition GenericClient :: "('t, 'v) strategy" where
  "GenericClient =
     \<lparr> makeimap = (\<lambda>m. (Inl NotImplementedError, m)),
       get_url_for_timerange = (\<lambda>timerange kwargs. Inl NotImplementedError),
       get_time_for_url = (\<lambda>m urls. Inr NotImplemented) \<rparr>"

text \<open>\<^verbatim>\<open>_makeargs\<close>: the loop, then \<^verbatim>\<open>self._makeimap()\<close>.\<close>

definition makeargs ::
  "('t, 'v) strategy \<Rightarrow> ('t, 'v) pydict \<Rightarrow> ('t, 'v) attr list
     \<Rightarrow> unit result \<times> ('t, 'v) pydict" where
  "makeargs self m args =
     (case makeargs_loop m args of
        (Inl err, m') \<Rightarrow> (Inl err, m')
      | (Inr _, m') \<Rightarrow> makeimap self m')"

section \<open>\<^verbatim>\<open>QueryResponseBlock\<close> and \<^verbatim>\<open>QueryResponse\<close>\<close>

record ('t, 'v) QueryResponseBlock =
  block_map :: "('t, 'v) pydict"
  source :: "('t, 'v) pyval"
  provider :: "('t, 'v) pyval"
  physobs :: "('t, 'v) pyval"
  instrument :: "('t, 'v) pyval"
  url :: string
  time :: "'t timerange"
  wave :: "('t, 'v) pyval"

text \<open>\<^verbatim>\<open>d.get(key, default)\<close>.\<close>

definition dict_get :: "('k \<rightharpoonup> 'a) \<Rightarrow> 'k \<Rightarrow> 'a \<Rightarrow> 'a" where
  "dict_get d k dflt = (case d k of Some x \<Rightarrow> x | None \<Rightarrow> dflt)"

text \<open>
  Modelled from the spec: the call \<^verbatim>\<open>TimeRange(a, b)\<close> of the constructor that
  is defined outside the module, on what \<^verbatim>\<open>map0.get(...)\<close> returns (\<open>None\<close> for
  a missing key). On two time points it is the interval from the first to the second.
  What it does on other arguments is not described; the model raises there.
\<close>

fun TimeRange_call ::
  "('t, 'v) pyval option \<Rightarrow> ('t, 'v) pyval option \<Rightarrow> 't timerange result" where
  "TimeRange_call (Some (PyTime a)) (Some (PyTime b)) = Inr (TimeRange a b)"
| "TimeRange_call _ _ = Inl (ValueError ''TimeRange'')"

text \<open>
  \<^verbatim>\<open>QueryResponseBlock.__init__(self, map0, url, time=None)\<close>. The block keeps
  \<^verbatim>\<open>map0\<close> itself as \<^verbatim>\<open>_map\<close>; \<open>block_map\<close> is its content when the block
  is made.
\<close>

definition QueryResponseBlock_init ::
  "('t, 'v) pydict \<Rightarrow> string \<Rightarrow> 't timerange option
     \<Rightarrow> ('t, 'v) QueryResponseBlock result" where
  "QueryResponseBlock_init map0 aurl t =
     (case (case t of
              None \<Rightarrow> TimeRange_call (map0 ''Time_start'') (map0 ''Time_end'')
            | Some t' \<Rightarrow> Inr t') of
        Inl err \<Rightarrow> Inl err
      | Inr tr \<Rightarrow>
          Inr \<lparr> block_map = map0,
                source = dict_get map0 ''source'' (PyStr ''Data not Available''),
                provider = dict_get map0 ''provider'' (PyStr ''Data not Available''),
                physobs = dict_get map0 ''physobs'' (PyStr ''Data not Available''),
                instrument = dict_get map0 ''instrument'' (PyStr ''Data not Available''),
                url = aurl,
                time = tr,
                wave = dict_get map0 ''wavelength'' PyNaN \<rparr>)"

text \<open>
  \<^verbatim>\<open>iter_urls\<close>, consumed by the list constructor: one block for each pair of
  \<^verbatim>\<open>zip(url_list, time)\<close>, stopping at the first exception.
\<close>

fun iter_pairs ::
  "('t, 'v) pydict \<Rightarrow> (string \<times> 't timerange option) list
     \<Rightarrow> ('t, 'v) QueryResponseBlock list result" where
  "iter_pairs amap [] = Inr []"
| "iter_pairs amap ((aurl, t) # rest) =
     (case QueryResponseBlock_init amap aurl t of
        Inl err \<Rightarrow> Inl err
      | Inr tmp \<Rightarrow>
          (case iter_pairs amap rest of
             Inl err \<Rightarrow> Inl err
           | Inr blocks \<Rightarrow> Inr (tmp # blocks)))"

definition iter_urls ::
  "('t, 'v) pydict \<Rightarrow> string list \<Rightarrow> 't timerange option list
     \<Rightarrow> ('t, 'v) QueryResponseBlock list result" where
  "iter_urls amap url_list tlist = iter_pairs amap (zip url_list tlist)"

text \<open>\<^verbatim>\<open>QueryResponse.create(cls, amap, lst, time=None)\<close>.\<close>

definition create ::
  "('t, 'v) pydict \<Rightarrow> string list \<Rightarrow> 't timerange option list option
     \<Rightarrow> ('t, 'v) QueryResponseBlock list result" where
  "create amap lst tlist =
     iter_urls amap lst
       (case tlist of None \<Rightarrow> replicate (length lst) None | Some ts \<Rightarrow> ts)"

text \<open>
  Python's \<^verbatim>\<open>min\<close> and \<^verbatim>\<open>max\<close> over an iterable: \<open>ValueError\<close> when it is
  empty; otherwise the first item is kept until a strictly smaller (larger) one is met.
\<close>

fun py_min :: "('a::linorder) list \<Rightarrow> 'a result" where
  "py_min [] = Inl (ValueError ''min() arg is an empty sequence'')"
| "py_min (x # xs) = Inr (foldl (\<lambda>best item. if item < best then item else best) x xs)"

fun py_max :: "('a::linorder) list \<Rightarrow> 'a result" where
  "py_max [] = Inl (ValueError ''max() arg is an empty sequence'')"
| "py_max (x # xs) = Inr (foldl (\<lambda>best item. if item > best then item else best) x xs)"

text \<open>\<^verbatim>\<open>QueryResponse.time_range\<close>: the first argument is evaluated first.\<close>

definition time_range ::
  "('t::linorder, 'v) QueryResponseBlock list \<Rightarrow> 't timerange result" where
  "time_range self =
     (case py_min (map (\<lambda>qrblock. tr_start (time qrblock)) self) of
        Inl err \<Rightarrow> Inl err
      | Inr lo \<Rightarrow>
          (case py_max (map (\<lambda>qrblock. tr_end (time qrblock)) self) of
             Inl err \<Rightarrow> Inl err
           | Inr hi \<Rightarrow> Inr (TimeRange lo hi)))"

section \<open>\<^verbatim>\<open>GenericClient.search\<close>\<close>

text \<open>
  Lines 281 to 284 of \<^verbatim>\<open>search\<close>: the call
  \<^verbatim>\<open>GenericClient._makeargs(self, *args, **kwargs)\<close>, which is a \<open>TypeError\<close>
  when \<^verbatim>\<open>kwargs\<close> is not empty since \<^verbatim>\<open>_makeargs\<close> takes no keyword, then the
  copy of \<^verbatim>\<open>self.map_\<close> updated with \<^verbatim>\<open>kwargs\<close>. The result is the keyword
  dictionary handed to \<^verbatim>\<open>_get_url_for_timerange\<close>.
\<close>

definition search_kwergs ::
  "('t, 'v) strategy \<Rightarrow> ('t, 'v) pydict \<Rightarrow> ('t, 'v) attr list
     \<Rightarrow> (string \<times> ('t, 'v) pyval) list \<Rightarrow> ('t, 'v) pydict result \<times> ('t, 'v) pydict" where
  "search_kwergs self m args kwargs =
     (if kwargs \<noteq> []
      then (Inl (TypeError ''_makeargs() got an unexpected keyword argument''), m)
      else (case makeargs self m args of
              (Inl err, m') \<Rightarrow> (Inl err, m')
            | (Inr _, m') \<Rightarrow> (Inr (m' ++ map_of kwargs), m')))"

definition search ::
  "('t, 'v) strategy \<Rightarrow> ('t, 'v) pydict \<Rightarrow> ('t, 'v) attr list
     \<Rightarrow> (string \<times> ('t, 'v) pyval) list
     \<Rightarrow> ('t, 'v) QueryResponseBlock list result \<times> ('t, 'v) pydict" where
  "search self m args kwargs =
     (case search_kwergs self m args kwargs of
        (Inl err, m') \<Rightarrow> (Inl err, m')
      | (Inr kwergs, m') \<Rightarrow>
          (case get_url_for_timerange self (m' ''TimeRange'') kwergs of
             Inl err \<Rightarrow> (Inl err, m')
           | Inr urls \<Rightarrow>
               (if urls \<noteq> []
                then (case get_time_for_url self m' urls of
                        Inl err \<Rightarrow> (Inl err, m')
                      | Inr NotImplemented \<Rightarrow> (create m' urls None, m')
                      | Inr (Times ts) \<Rightarrow>
                          (if ts \<noteq> [] then (create m' urls (Some ts), m')
                           else (create m' urls None, m')))
                else (create m' urls None, m'))))"

section \<open>\<^verbatim>\<open>GenericClient._get_full_filenames\<close> and \<^verbatim>\<open>GenericClient.fetch\<close>\<close>

text \<open>
  What the two methods take from outside the module: the configured download
  directory, Python's \<^verbatim>\<open>str.format(**kwargs)\<close> (it raises \<open>KeyError\<close> for a
  field that the dictionary lacks), \<^verbatim>\<open>os.path.expanduser\<close>,
  \<^verbatim>\<open>os.path.exists\<close> on the file system of the moment,
  \<^verbatim>\<open>sunpy.util.replacement_filename\<close>, and \<^verbatim>\<open>str(path.absolute())\<close> for a
  \<^verbatim>\<open>pathlib.Path\<close> (of type \<open>'p\<close>).
\<close>

record ('t, 'v, 'p) env =
  default_dir :: string
  str_format :: "string \<Rightarrow> ('t, 'v) pydict \<Rightarrow> string result"
  expanduser :: "string \<Rightarrow> string"
  path_exists :: "string \<Rightarrow> bool"
  replacement_filename :: "string \<Rightarrow> string"
  path_absolute :: "'p \<Rightarrow> string"

text \<open>
  The \<^verbatim>\<open>path\<close> argument: \<^verbatim>\<open>None\<close>, a \<^verbatim>\<open>str\<close>, a \<^verbatim>\<open>pathlib.Path\<close>, or
  an object of another type, given by the text of \<^verbatim>\<open>type(path)\<close>.
\<close>

datatype 'p path_arg = PathNone | PathStr string | PathObj 'p | PathOther string

text \<open>
  The local variable \<^verbatim>\<open>fname\<close> of \<^verbatim>\<open>_get_full_filenames\<close>: not assigned
  yet, a string, or the \<^verbatim>\<open>partial\<close> object left by the previous iteration.
\<close>

datatype fname_var = Unbound | FnameStr string | FnamePartial string

text \<open>
  A path accessor is called with the socket (of type \<open>'s\<close>) and the URL (of type
  \<open>'u\<close>) of the downloaded item; \<^verbatim>\<open>partial(simple_path, fname)\<close> is
  \<open>simple_path fname\<close>.
\<close>

type_synonym ('s, 'u) accessor = "'s \<Rightarrow> 'u \<Rightarrow> string"

definition simple_path :: "string \<Rightarrow> ('s, 'u) accessor" where
  "simple_path path sock aurl = path"

text \<open>The \<^verbatim>\<open>if\<close>/\<^verbatim>\<open>elif\<close> that opens the loop body: it has no \<^verbatim>\<open>else\<close>.\<close>

fun assign_fname :: "('t, 'v, 'p) env \<Rightarrow> 'p path_arg \<Rightarrow> fname_var \<Rightarrow> fname_var" where
  "assign_fname e PathNone fname = FnameStr (path_join (default_dir e) ''{file}'')"
| "assign_fname e (PathStr p) fname =
     (if \<not> py_in ''{file}'' p then FnameStr (path_join p ''{file}'') else fname)"
| "assign_fname e (PathObj p) fname = fname"
| "assign_fname e (PathOther ty) fname = fname"

text \<open>
  The rest of the loop body, from \<^verbatim>\<open>fname.format(**temp_dict)\<close> to the test of
  \<^verbatim>\<open>os.path.exists\<close>: the path of one record, before it is wrapped. Reading
  \<^verbatim>\<open>fname\<close> while it is unassigned is an \<open>UnboundLocalError\<close>; a
  \<^verbatim>\<open>partial\<close> object has no \<^verbatim>\<open>format\<close> attribute.
\<close>

definition format_fname ::
  "('t, 'v, 'p) env \<Rightarrow> fname_var \<Rightarrow> ('t, 'v) pydict \<Rightarrow> string result" where
  "format_fname e fname temp_dict =
     (case fname of
        Unbound \<Rightarrow> Inl (UnboundLocalError ''fname'')
      | FnamePartial _ \<Rightarrow> Inl (AttributeError ''format'')
      | FnameStr tmpl \<Rightarrow>
          (case str_format e tmpl temp_dict of
             Inl err \<Rightarrow> Inl err
           | Inr formatted \<Rightarrow>
               (let expanded = expanduser e formatted
                in Inr (if path_exists e expanded then replacement_filename e expanded
                        else expanded))))"

text \<open>
  The loop \<^verbatim>\<open>for i, filename in enumerate(filenames)\<close>, with the index and the
  variable \<^verbatim>\<open>fname\<close> carried from one iteration to the next. \<^verbatim>\<open>qres[i]\<close> is
  an \<open>IndexError\<close> past the end of \<^verbatim>\<open>qres\<close>, and it is evaluated before
  \<^verbatim>\<open>fname\<close> is read.
\<close>

text \<open>
  \<^verbatim>\<open>temp_dict\<close>: the copy of the record's \<^verbatim>\<open>_map\<close> with \<^verbatim>\<open>file\<close> set.
\<close>

definition temp_dict :: "('t, 'v) QueryResponseBlock \<Rightarrow> string \<Rightarrow> ('t, 'v) pydict" where
  "temp_dict qrblock filename = (block_map qrblock)(''file'' \<mapsto> PyStr filename)"

fun full_filenames_loop ::
  "('t, 'v, 'p) env \<Rightarrow> ('t, 'v) QueryResponseBlock list \<Rightarrow> 'p path_arg \<Rightarrow> nat
     \<Rightarrow> fname_var \<Rightarrow> string list \<Rightarrow> ('s, 'u) accessor list result" where
  "full_filenames_loop e qres path i fname [] = Inr []"
| "full_filenames_loop e qres path i fname (filename # rest) =
     (let fname1 = assign_fname e path fname
      in if length qres \<le> i then Inl (IndexError ''list index out of range'')
         else (let d = temp_dict (qres ! i) filename
               in case format_fname e fname1 d of
                    Inl err \<Rightarrow> Inl err
                  | Inr resolved \<Rightarrow>
                      (case full_filenames_loop e qres path (Suc i)
                              (FnamePartial resolved) rest of
                         Inl err \<Rightarrow> Inl err
                       | Inr paths \<Rightarrow> Inr (simple_path resolved # paths))))"

definition get_full_filenames ::
  "('t, 'v, 'p) env \<Rightarrow> ('t, 'v) QueryResponseBlock list \<Rightarrow> string list \<Rightarrow> 'p path_arg
     \<Rightarrow> ('s, 'u) accessor list result" where
  "get_full_filenames e qres filenames path =
     full_filenames_loop e qres path 0 Unbound filenames"

text \<open>
  \<^verbatim>\<open>fetch\<close>. The \<^verbatim>\<open>Downloader\<close> is the list of the tasks handed to
  \<^verbatim>\<open>dobj.download\<close>, in order, each the URL and the path accessor (a function of
  the socket, of type \<open>'s\<close>, and the URL); the returned \<^verbatim>\<open>Results\<close> object is the
  list of the keys registered by \<^verbatim>\<open>res.require\<close>. The outcome is paired with the
  tasks submitted.
\<close>

definition check_path :: "('t, 'v, 'p) env \<Rightarrow> 'p path_arg \<Rightarrow> 'p path_arg result" where
  "check_path e path =
     (case path of
        PathNone \<Rightarrow> Inr PathNone
      | PathObj p \<Rightarrow> Inr (PathStr (path_absolute e p))
      | PathStr s \<Rightarrow> Inr (PathStr s)
      | PathOther ty \<Rightarrow>
          Inl (TypeError (''path should be either 'pathlib.Path' or 'str'. Got ''
                           @ [CHR 0x27] @ ty @ [CHR 0x27] @ ''.'')))"

type_synonym 's task = "string \<times> ('s, string) accessor"

type_synonym 's fetched = "string list list result \<times> 's task list"

definition download :: "'s task list \<Rightarrow> 's task \<Rightarrow> 's task list" where
  "download dobj task = dobj @ [task]"

definition fetch ::
  "('t, 'v, 'p) env \<Rightarrow> ('t, 'v) QueryResponseBlock list \<Rightarrow> 'p path_arg \<Rightarrow> 's fetched" where
  "fetch e qres path =
     (case check_path e path of
        Inl err \<Rightarrow> (Inl err, [])
      | Inr path1 \<Rightarrow>
          (let urls = map url qres;
               filenames = map (\<lambda>u. last (split_on CHR ''/'' [] u)) urls
           in case get_full_filenames e qres filenames path1 of
                Inl err \<Rightarrow> (Inl err, [])
              | Inr paths \<Rightarrow>
                  (Inr (map (\<lambda>x. [x]) urls), foldl download [] (zip urls paths))))"

section \<open>Vocabulary of the properties, and a concrete client\<close>

text \<open>
  An attribute is supported when \<^verbatim>\<open>_makeargs\<close> has a branch that stores it: a
  time interval, a closed range, or an attribute with a value.
\<close>

fun supported :: "('t, 'v) attr \<Rightarrow> bool" where
  "supported (OtherAttr cls) = False"
| "supported _ = True"

text \<open>The keys that \<^verbatim>\<open>_makeargs\<close> assigns for one attribute.\<close>

fun keys_of :: "('t, 'v) attr \<Rightarrow> string set" where
  "keys_of (TimeAttr start end') = {''TimeRange'', ''Time_start'', ''Time_end''}"
| "keys_of (RangeAttr cls wl a_min a_max) = {py_lower cls}"
| "keys_of (ValueAttr cls v) = {py_lower cls}"
| "keys_of (OtherAttr cls) = {}"

text \<open>
  The dictionary that \<^verbatim>\<open>fetch\<close> formats the template of record \<open>i\<close> with:
  a copy of the record's \<^verbatim>\<open>_map\<close> with \<^verbatim>\<open>file\<close> set to the last component of
  its URL.
\<close>

definition fetch_dict ::
  "('t, 'v) QueryResponseBlock list \<Rightarrow> nat \<Rightarrow> ('t, 'v) pydict" where
  "fetch_dict qres i = temp_dict (qres ! i) (last (split_on CHR ''/'' [] (url (qres ! i))))"

text \<open>
  The entry of a key in the keyword dictionary that \<^verbatim>\<open>search\<close> hands to
  \<^verbatim>\<open>_get_url_for_timerange\<close>, \<open>None\<close> when the call raised before.
\<close>

definition kwergs_entry ::
  "('t, 'v) pydict result \<times> ('t, 'v) pydict \<Rightarrow> string \<Rightarrow> ('t, 'v) pyval option" where
  "kwergs_entry r k = (case fst r of Inl err \<Rightarrow> None | Inr kwergs \<Rightarrow> kwergs k)"

text \<open>
  A concrete client for evaluating the definitions: times are numbers, attribute values
  are strings. Its \<^verbatim>\<open>_makeimap\<close> sets \<^verbatim>\<open>source\<close>, its
  \<^verbatim>\<open>_get_url_for_timerange\<close> returns two URLs, and it does not override
  \<^verbatim>\<open>_get_time_for_url\<close>.
\<close>

definition demo_client :: "(nat, string) strategy" where
  "demo_client =
     \<lparr> makeimap = (\<lambda>m. (Inr (), m(''source'' \<mapsto> PyStr ''demo''))),
       get_url_for_timerange =
         (\<lambda>timerange kwargs. Inr [''http://host/data/a.fits'', ''http://host/data/b.fits'']),
       get_time_for_url = (\<lambda>m urls. Inr NotImplemented) \<rparr>"

text \<open>
  \<^verbatim>\<open>str.format(**d)\<close> on templates made of plain text and fields
  \<^verbatim>\<open>{name}\<close>, read from left to right: a field absent from \<open>d\<close> is a
  \<open>KeyError\<close>, an unclosed field or a lone closing brace a \<open>ValueError\<close>. The
  third argument is the field being read, if any.
\<close>

fun format_fields ::
  "('a \<Rightarrow> string) \<Rightarrow> (string \<rightharpoonup> 'a) \<Rightarrow> string option \<Rightarrow> string \<Rightarrow> string result" where
  "format_fields str d None [] = Inr []"
| "format_fields str d (Some field) [] = Inl (ValueError ''expected } before end of string'')"
| "format_fields str d None (c # cs) =
     (if c = CHR ''{'' then format_fields str d (Some []) cs
      else if c = CHR ''}'' then Inl (ValueError ''Single } encountered in format string'')
      else (case format_fields str d None cs of
              Inl err \<Rightarrow> Inl err
            | Inr out \<Rightarrow> Inr (c # out)))"
| "format_fields str d (Some field) (c # cs) =
     (if c = CHR ''}''
      then (case d field of
              None \<Rightarrow> Inl (KeyError field)
            | Some v \<Rightarrow>
                (case format_fields str d None cs of
                   Inl err \<Rightarrow> Inl err
                 | Inr out \<Rightarrow> Inr (str v @ out)))
      else format_fields str d (Some (field @ [c])) cs)"

fun demo_str :: "(nat, string) pyval \<Rightarrow> string" where
  "demo_str (PyStr s) = s"
| "demo_str (PyAttr s) = s"
| "demo_str _ = ''?''"

definition demo_env :: "(nat, string, string) env" where
  "demo_env =
     \<lparr> default_dir = ''/home/user/sunpy/data'',
       str_format = (\<lambda>tmpl d. format_fields demo_str d None tmpl),
       expanduser = (\<lambda>p. p),
       path_exists = (\<lambda>p. p = ''/data/eit/b.fits''),
       replacement_filename = (\<lambda>p. p @ ''.0''),
       path_absolute = (\<lambda>p. path_join ''/cwd'' p) \<rparr>"

definition demo_block :: "string \<Rightarrow> (string \<times> string) list \<Rightarrow> (nat, string) QueryResponseBlock" where
  "demo_block aurl kvs =
     \<lparr> block_map = map_of (map (\<lambda>(k, v). (k, PyAttr v)) kvs),
       source = PyStr ''Data not Available'',
       provider = PyStr ''Data not Available'',
       physobs = PyStr ''Data not Available'',
       instrument = PyStr ''Data not Available'',
       url = aurl,
       time = TimeRange 1 2,
       wave = PyNaN \<rparr>"

section \<open>Properties of \<^verbatim>\<open>time_range\<close>\<close>

lemma foldl_keep_smaller:
  "foldl (\<lambda>best item. if item < best then item else best) (x::'a::linorder) xs = Min (set (x # xs))"
proof (induction xs arbitrary: x)
  case Nil
  show ?case by simp
next
  case (Cons y ys)
  have "(if y < x then y else x) = min x y" by (auto simp: min_def)
  then have "foldl (\<lambda>best item. if item < best then item else best) x (y # ys)
      = Min (set (min x y # ys))"
    using Cons.IH [of "min x y"] by simp
  also have "\<dots> = Min (set (x # y # ys))"
  proof (cases "ys = []")
    case True
    then show ?thesis by simp
  next
    case False
    then show ?thesis by (simp add: min.assoc)
  qed
  finally show ?case .
qed

lemma foldl_keep_larger:
  "foldl (\<lambda>best item. if item > best then item else best) (x::'a::linorder) xs = Max (set (x # xs))"
proof (induction xs arbitrary: x)
  case Nil
  show ?case by simp
next
  case (Cons y ys)
  have "(if y > x then y else x) = max x y" by (auto simp: max_def)
  then have "foldl (\<lambda>best item. if item > best then item else best) x (y # ys)
      = Max (set (max x y # ys))"
    using Cons.IH [of "max x y"] by simp
  also have "\<dots> = Max (set (x # y # ys))"
  proof (cases "ys = []")
    case True
    then show ?thesis by simp
  next
    case False
    then show ?thesis by (simp add: max.assoc)
  qed
  finally show ?case .
qed

lemma py_min_Min: "xs \<noteq> [] \<Longrightarrow> py_min xs = Inr (Min (set xs))"
  by (cases xs) (simp_all only: py_min.simps foldl_keep_smaller, simp)

lemma py_max_Max: "xs \<noteq> [] \<Longrightarrow> py_max xs = Inr (Max (set xs))"
  by (cases xs) (simp_all only: py_max.simps foldl_keep_larger, simp)

text \<open>
  C3. \<^verbatim>\<open>time_range()\<close> on a \<^verbatim>\<open>QueryResponse\<close> with no record fails: the
  \<^verbatim>\<open>min\<close> over no start time raises the \<open>ValueError\<close> that the design
  document calls \<^verbatim>\<open>EmptySetError\<close>.
\<close>

theorem time_range_empty:
  "time_range ([] :: ('t::linorder, 'v) QueryResponseBlock list)
     = Inl (ValueError ''min() arg is an empty sequence'')"
  by (simp add: time_range_def)

text \<open>
  C6. On a \<^verbatim>\<open>QueryResponse\<close> with at least one record, \<^verbatim>\<open>time_range()\<close>
  returns the interval from the least start time of the records to their greatest end
  time.
\<close>

theorem time_range_min_max:
  fixes self :: "('t::linorder, 'v) QueryResponseBlock list"
  assumes "self \<noteq> []"
  shows "time_range self =
           Inr (TimeRange (Min (set (map (\<lambda>qrblock. tr_start (time qrblock)) self)))
                          (Max (set (map (\<lambda>qrblock. tr_end (time qrblock)) self))))"
  using assms by (simp add: time_range_def py_min_Min py_max_Max)

theorem time_range_min_max_witness:
  "[(demo_block ''http://h/a.fits'' [])\<lparr>time := TimeRange 3 9\<rparr>, demo_block ''http://h/b.fits'' []] \<noteq> []
   \<and> time_range [(demo_block ''http://h/a.fits'' [])\<lparr>time := TimeRange 3 9\<rparr>,
                   demo_block ''http://h/b.fits'' []] = Inr (TimeRange 1 9)"
  using time_range_min_max [of "[(demo_block ''http://h/a.fits'' [])\<lparr>time := TimeRange 3 9\<rparr>,
                   demo_block ''http://h/b.fits'' []]"]
  by (simp add: demo_block_def)

section \<open>Properties of \<^verbatim>\<open>_makeargs\<close>\<close>

lemma makeargs_loop_append:
  "makeargs_loop m (xs @ ys) =
     (case makeargs_loop m xs of
        (Inl err, m') \<Rightarrow> (Inl err, m')
      | (Inr u, m') \<Rightarrow> makeargs_loop m' ys)"
  by (induction xs arbitrary: m) (auto split: prod.splits sum.splits)

lemma makeargs_elem_supported:
  "supported elem \<Longrightarrow> fst (makeargs_elem m elem) = Inr ()"
  by (cases elem) (auto simp: Let_def)

lemma makeargs_loop_supported:
  "\<forall>e\<in>set args. supported e \<Longrightarrow> fst (makeargs_loop m args) = Inr ()"
proof (induction args arbitrary: m)
  case Nil
  show ?case by simp
next
  case (Cons a args)
  then have "fst (makeargs_elem m a) = Inr ()" by (simp add: makeargs_elem_supported)
  then obtain m' where "makeargs_elem m a = (Inr (), m')" by (cases "makeargs_elem m a") auto
  with Cons show ?case by simp
qed

lemma makeargs_elem_other_keys:
  "k \<notin> keys_of elem \<Longrightarrow> snd (makeargs_elem m elem) k = m k"
  by (cases elem) (auto simp: Let_def)

lemma makeargs_loop_other_keys:
  "\<forall>e\<in>set args. k \<notin> keys_of e \<Longrightarrow> snd (makeargs_loop m args) k = m k"
proof (induction args arbitrary: m)
  case Nil
  show ?case by simp
next
  case (Cons a args)
  obtain r m' where step: "makeargs_elem m a = (r, m')" by (cases "makeargs_elem m a")
  have keep: "m' k = m k" using makeargs_elem_other_keys [of k a m] Cons.prems step by simp
  show ?case
  proof (cases r)
    case (Inl err)
    with step keep show ?thesis by simp
  next
    case (Inr u)
    with step keep Cons show ?thesis by simp
  qed
qed

lemma minmax_plain: "minmax '''' a b = PyNamedTuple ''minmax'' [(''min'', a), (''max'', b)]"
  by (simp add: minmax_def)

lemma minmax_wave: "minmax ''wave'' a b = PyNamedTuple ''minmax'' [(''wavemin'', a), (''wavemax'', b)]"
  by (simp add: minmax_def)

text \<open>
  C1. Whatever supported attributes come before it, \<^verbatim>\<open>_makeargs\<close> stores a closed
  range under the lower-cased name of its class: the value \<^verbatim>\<open>min\<close> itself when
  \<^verbatim>\<open>min == max\<close>, and otherwise the named tuple \<^verbatim>\<open>minmax\<close> of two fields
  called \<^verbatim>\<open>wavemin\<close>, \<^verbatim>\<open>wavemax\<close> for a \<^verbatim>\<open>Wavelength\<close> and
  \<^verbatim>\<open>min\<close>, \<^verbatim>\<open>max\<close> for any other range. The entry is still there at the end
  of the loop, when \<^verbatim>\<open>_makeimap\<close> is called, unless a later attribute assigns the
  same key.
\<close>

theorem makeargs_range_stored:
  fixes m :: "('t, 'v) pydict" and a_min a_max :: 'v and wl :: bool
  assumes "\<forall>e\<in>set before. supported e"
    and "\<forall>e\<in>set after. supported e \<and> py_lower cls \<notin> keys_of e"
  defines "stored \<equiv>
    (if a_min = a_max then PyAttr a_min
     else PyNamedTuple ''minmax''
            [((if wl then ''wave'' else '''') @ ''min'', a_min),
             ((if wl then ''wave'' else '''') @ ''max'', a_max)])"
  shows "\<exists>m1 m2.
           makeargs_loop m (before @ [RangeAttr cls wl a_min a_max]) = (Inr (), m1)
         \<and> m1 (py_lower cls) = Some stored
         \<and> makeargs_loop m (before @ RangeAttr cls wl a_min a_max # after) = (Inr (), m2)
         \<and> m2 (py_lower cls) = Some stored
         \<and> makeargs self m (before @ RangeAttr cls wl a_min a_max # after) = makeimap self m2"
proof -
  obtain m0 where before: "makeargs_loop m before = (Inr (), m0)"
    using makeargs_loop_supported [OF assms(1), of m]
    by (cases "makeargs_loop m before") auto
  define m1 where "m1 = m0(py_lower cls \<mapsto> stored)"
  have step: "makeargs_elem m0 (RangeAttr cls wl a_min a_max) = (Inr (), m1)"
    by (simp add: m1_def stored_def minmax_plain minmax_wave)
  have one: "makeargs_loop m (before @ [RangeAttr cls wl a_min a_max]) = (Inr (), m1)"
    using before step by (simp add: makeargs_loop_append)
  obtain m2 where after: "makeargs_loop m1 after = (Inr (), m2)"
    using makeargs_loop_supported [of after m1] assms(2)
    by (cases "makeargs_loop m1 after") auto
  have kept: "m2 (py_lower cls) = m1 (py_lower cls)"
    using makeargs_loop_other_keys [of after "py_lower cls" m1] assms(2) after by simp
  have all: "makeargs_loop m (before @ RangeAttr cls wl a_min a_max # after) = (Inr (), m2)"
    using before step after by (simp add: makeargs_loop_append)
  have "makeargs self m (before @ RangeAttr cls wl a_min a_max # after) = makeimap self m2"
    using all by (simp add: makeargs_def)
  with one all kept show ?thesis by (simp add: m1_def)
qed

theorem makeargs_range_stored_witness:
  "supported (TimeAttr (1::nat) 2 :: (nat, string) attr)
   \<and> supported (RangeAttr ''Wavelength'' True ''94'' ''94'' :: (nat, string) attr)
   \<and> supported (ValueAttr ''Instrument'' ''aia'' :: (nat, string) attr)
   \<and> py_lower ''Wavelength'' \<notin> keys_of (ValueAttr ''Instrument'' ''aia'' :: (nat, string) attr)
   \<and> kwergs_entry (search_kwergs demo_client Map.empty
        ([TimeAttr (1::nat) 2, RangeAttr ''Wavelength'' True ''94'' ''94'']
           @ RangeAttr ''Wavelength'' True ''171'' ''193'' # [ValueAttr ''Instrument'' ''aia'']) [])
        ''wavelength''
       = Some (PyNamedTuple ''minmax'' [(''wavemin'', ''171''), (''wavemax'', ''193'')])"
  using makeargs_range_stored [where before = "[TimeAttr (1::nat) 2, RangeAttr ''Wavelength'' True ''94'' ''94'']"
      and after = "[ValueAttr ''Instrument'' ''aia'']" and cls = "''Wavelength''" and a_min = "''171''"
      and a_max = "''193''" and wl = True and m = Map.empty and self = demo_client]
  by (auto simp: kwergs_entry_def search_kwergs_def demo_client_def py_lower_def lower_char_def)

lemma makeargs_loop_first_unsupported:
  assumes "\<forall>e\<in>set before. supported e"
  shows "fst (makeargs_loop m (before @ OtherAttr cls # after)) = Inl (ValueError (unsupported_msg cls))"
proof -
  obtain m0 where "makeargs_loop m before = (Inr (), m0)"
    using makeargs_loop_supported [OF assms, of m]
    by (cases "makeargs_loop m before") auto
  then show ?thesis by (simp add: makeargs_loop_append)
qed

text \<open>
  C5. If some attribute of the query has none of the three shapes, \<^verbatim>\<open>_makeargs\<close>
  raises the \<open>ValueError\<close> naming the class of such an attribute, whatever the
  client: the attribute is not skipped. If every attribute has one of the three
  shapes, the loop raises nothing and \<^verbatim>\<open>_makeargs\<close> goes on to
  \<^verbatim>\<open>_makeimap\<close>.
\<close>

theorem makeargs_unsupported_raises:
  "((\<exists>e\<in>set args. \<not> supported e) \<longrightarrow>
      (\<exists>cls. OtherAttr cls \<in> set args
         \<and> fst (makeargs self m args) = Inl (ValueError (unsupported_msg cls))))
   \<and> ((\<forall>e\<in>set args. supported e) \<longrightarrow>
         fst (makeargs_loop m args) = Inr ()
       \<and> makeargs self m args = makeimap self (snd (makeargs_loop m args)))"
proof (intro conjI impI)
  assume "\<exists>e\<in>set args. \<not> supported e"
  then obtain before e after where split: "args = before @ e # after"
    and bad: "\<not> supported e" and good: "\<forall>x\<in>set before. \<not> \<not> supported x"
    using split_list_first_prop [of args "\<lambda>e. \<not> supported e"] by blast
  from bad obtain cls where e: "e = OtherAttr cls" by (cases e) auto
  have "fst (makeargs_loop m args) = Inl (ValueError (unsupported_msg cls))"
    using makeargs_loop_first_unsupported [of before m cls after] good split e by simp
  then have "fst (makeargs self m args) = Inl (ValueError (unsupported_msg cls))"
    by (cases "makeargs_loop m args") (auto simp: makeargs_def)
  with split e show "\<exists>cls. OtherAttr cls \<in> set args
         \<and> fst (makeargs self m args) = Inl (ValueError (unsupported_msg cls))" by auto
next
  assume ok: "\<forall>e\<in>set args. supported e"
  then show "fst (makeargs_loop m args) = Inr ()" by (rule makeargs_loop_supported)
  then show "makeargs self m args = makeimap self (snd (makeargs_loop m args))"
    by (cases "makeargs_loop m args") (auto simp: makeargs_def)
qed

theorem makeargs_unsupported_raises_witness:
  "\<not> supported (OtherAttr ''Extent'' :: (nat, string) attr)
   \<and> fst (makeargs demo_client Map.empty
             [TimeAttr (1::nat) 2, OtherAttr ''Extent'', ValueAttr ''Instrument'' ''eit''])
       = Inl (ValueError (unsupported_msg ''Extent''))
   \<and> supported (TimeAttr (1::nat) 2 :: (nat, string) attr)
   \<and> supported (ValueAttr ''Instrument'' ''eit'' :: (nat, string) attr)
   \<and> fst (makeargs demo_client Map.empty [TimeAttr (1::nat) 2, ValueAttr ''Instrument'' ''eit'']) = Inr ()"
  using makeargs_unsupported_raises [of "[TimeAttr (1::nat) 2, OtherAttr ''Extent'', ValueAttr ''Instrument'' ''eit'']" demo_client Map.empty]
    makeargs_unsupported_raises [of "[TimeAttr (1::nat) 2, ValueAttr ''Instrument'' ''eit'']" demo_client Map.empty]
  by (auto simp: demo_client_def makeargs_def unsupported_msg_def)

section \<open>Properties of \<^verbatim>\<open>search\<close>\<close>

lemma makeargs_elem_dom:
  "makeargs_elem m elem = (Inr u, m') \<Longrightarrow> dom m' = dom m \<union> keys_of elem"
  by (cases elem) (auto simp: Let_def split: if_splits)

lemma makeargs_loop_dom:
  "makeargs_loop m args = (Inr u, m') \<Longrightarrow> dom m' = dom m \<union> (\<Union>e\<in>set args. keys_of e)"
proof (induction args arbitrary: m)
  case Nil
  then show ?case by simp
next
  case (Cons a args)
  obtain r m0 where step: "makeargs_elem m a = (r, m0)" by (cases "makeargs_elem m a")
  show ?case
  proof (cases r)
    case (Inl err)
    with step Cons.prems show ?thesis by simp
  next
    case (Inr v)
    with step Cons.prems have rest: "makeargs_loop m0 args = (Inr u, m')" by simp
    have "dom m0 = dom m \<union> keys_of a" using step Inr by (simp add: makeargs_elem_dom)
    with Cons.IH [OF rest] show ?thesis by auto
  qed
qed

text \<open>
  C4, as the code has it. \<^verbatim>\<open>search\<close> does not build a new dictionary: the
  client's one \<^verbatim>\<open>map_\<close> is updated in place. When the call succeeds, the loop of
  \<^verbatim>\<open>_makeargs\<close> has added the keys of this call's attributes to the keys
  \<^verbatim>\<open>map_\<close> already had and left the entry of every other key as the earlier calls
  left it; \<^verbatim>\<open>_makeimap\<close> runs on that dictionary, and what it leaves is the keyword
  dictionary handed to \<^verbatim>\<open>_get_url_for_timerange\<close>. So in that dictionary every key
  that this call's attributes do not assign and that \<^verbatim>\<open>_makeimap\<close> leaves as it found
  it has the entry (or the absence) it had before the call, and a key that
  \<^verbatim>\<open>_makeimap\<close> leaves as it found it is present exactly when it was present before
  or is a key of this call's attributes.
\<close>

theorem search_kwergs_accumulates:
  assumes "search_kwergs self m args kwargs = (Inr kwergs, m')"
  shows "\<exists>m1. makeargs_loop m args = (Inr (), m1)
             \<and> makeimap self m1 = (Inr (), kwergs)
             \<and> m' = kwergs
             \<and> dom m1 = dom m \<union> (\<Union>e\<in>set args. keys_of e)
             \<and> (\<forall>k. k \<notin> (\<Union>e\<in>set args. keys_of e) \<longrightarrow> m1 k = m k)
             \<and> (\<forall>k. k \<notin> (\<Union>e\<in>set args. keys_of e) \<longrightarrow> kwergs k = m1 k
                      \<longrightarrow> kwergs k = m k)
             \<and> (\<forall>k. kwergs k = m1 k \<longrightarrow>
                      (k \<in> dom kwergs \<longleftrightarrow> k \<in> dom m \<union> (\<Union>e\<in>set args. keys_of e)))"
proof -
  from assms have empty: "kwargs = []"
    by (auto simp: search_kwergs_def split: if_splits)
  obtain r m1 where loop: "makeargs_loop m args = (r, m1)" by (cases "makeargs_loop m args")
  from assms empty loop have r: "r = Inr ()"
    by (cases r) (auto simp: search_kwergs_def makeargs_def)
  from assms empty loop r have imap: "makeimap self m1 = (Inr (), kwergs)" and same: "m' = kwergs"
    by (auto simp: search_kwergs_def makeargs_def split: prod.splits sum.splits)
  have d: "dom m1 = dom m \<union> (\<Union>e\<in>set args. keys_of e)"
    using loop r by (simp add: makeargs_loop_dom)
  have frame: "\<forall>k. k \<notin> (\<Union>e\<in>set args. keys_of e) \<longrightarrow> m1 k = m k"
    using makeargs_loop_other_keys [of args _ m] loop by auto
  have kept: "\<forall>k. k \<notin> (\<Union>e\<in>set args. keys_of e) \<longrightarrow> kwergs k = m1 k \<longrightarrow> kwergs k = m k"
    using frame by simp
  have present: "\<forall>k. kwergs k = m1 k \<longrightarrow>
      (k \<in> dom kwergs \<longleftrightarrow> k \<in> dom m \<union> (\<Union>e\<in>set args. keys_of e))"
  proof (intro allI impI)
    fix k assume "kwergs k = m1 k"
    then have "k \<in> dom kwergs \<longleftrightarrow> k \<in> dom m1" by (simp add: dom_def)
    with d show "k \<in> dom kwergs \<longleftrightarrow> k \<in> dom m \<union> (\<Union>e\<in>set args. keys_of e)" by simp
  qed
  from loop r imap same d frame kept present show ?thesis by blast
qed

theorem search_kwergs_accumulates_witness:
  "search_kwergs demo_client [''instrument'' \<mapsto> PyAttr ''eit''] [TimeAttr (3::nat) 4] []
     = (Inr [''instrument'' \<mapsto> PyAttr ''eit'', ''TimeRange'' \<mapsto> PyTimeRange (TimeRange 3 4),
             ''Time_start'' \<mapsto> PyTime 3, ''Time_end'' \<mapsto> PyTime 4, ''source'' \<mapsto> PyStr ''demo''],
        [''instrument'' \<mapsto> PyAttr ''eit'', ''TimeRange'' \<mapsto> PyTimeRange (TimeRange 3 4),
             ''Time_start'' \<mapsto> PyTime 3, ''Time_end'' \<mapsto> PyTime 4, ''source'' \<mapsto> PyStr ''demo''])
   \<and> ''instrument'' \<notin> keys_of (TimeAttr (3::nat) 4 :: (nat, string) attr)
   \<and> [''instrument'' \<mapsto> PyAttr ''eit'', ''TimeRange'' \<mapsto> PyTimeRange (TimeRange (3::nat) 4),
        ''Time_start'' \<mapsto> PyTime 3, ''Time_end'' \<mapsto> PyTime 4, ''source'' \<mapsto> PyStr ''demo'']
         ''instrument''
       = [''instrument'' \<mapsto> PyAttr (''eit'' :: string)] ''instrument''"
proof -
  define m :: "(nat, string) pydict" where "m = [''instrument'' \<mapsto> PyAttr ''eit'']"
  define d :: "(nat, string) pydict" where
    "d = [''instrument'' \<mapsto> PyAttr ''eit'', ''TimeRange'' \<mapsto> PyTimeRange (TimeRange 3 4),
          ''Time_start'' \<mapsto> PyTime 3, ''Time_end'' \<mapsto> PyTime 4, ''source'' \<mapsto> PyStr ''demo'']"
  have run: "search_kwergs demo_client m [TimeAttr (3::nat) 4] [] = (Inr d, d)"
    by (simp add: m_def d_def search_kwergs_def makeargs_def demo_client_def)
  have fresh: "''instrument'' \<notin> keys_of (TimeAttr (3::nat) 4 :: (nat, string) attr)" by simp
  then have fresh': "''instrument'' \<notin> (\<Union>e\<in>set [TimeAttr (3::nat) 4 :: (nat, string) attr]. keys_of e)"
    by simp
  from search_kwergs_accumulates [OF run] obtain m1 where
    imap: "makeimap demo_client m1 = (Inr (), d)"
    and kept: "\<forall>k. k \<notin> (\<Union>e\<in>set [TimeAttr (3::nat) 4 :: (nat, string) attr]. keys_of e)
                  \<longrightarrow> d k = m1 k \<longrightarrow> d k = m k"
    by (elim exE conjE) (rule that, assumption+)
  from imap have eq: "m1(''source'' \<mapsto> PyStr ''demo'') = d" by (simp add: demo_client_def)
  from fun_cong [OF eq, of "''instrument''"] have same: "d ''instrument'' = m1 ''instrument''"
    by simp
  from kept fresh' same have carried: "d ''instrument'' = m ''instrument''" by blast
  from run fresh carried show ?thesis unfolding m_def d_def by (intro conjI)
qed

text \<open>
  C4, as it is stated, fails: a client that has searched for an instrument hands the
  instrument to \<^verbatim>\<open>_get_url_for_timerange\<close> again in a second search that names
  only a time interval.
\<close>

theorem search_kwergs_carries_over:
  "kwergs_entry
     (search_kwergs demo_client
        (snd (search_kwergs demo_client Map.empty
                [TimeAttr (1::nat) 2, ValueAttr ''Instrument'' ''eit''] []))
        [TimeAttr 3 4] [])
     ''instrument'' = Some (PyAttr ''eit'')
   \<and> ''instrument'' \<notin> keys_of (TimeAttr (3::nat) 4 :: (nat, string) attr)"
  by (simp add: kwergs_entry_def search_kwergs_def makeargs_def demo_client_def
      py_lower_def lower_char_def)

lemma iter_pairs_no_times:
  "iter_pairs amap (zip urls (replicate n None)) = Inr qr \<Longrightarrow>
     map url qr = take n urls
   \<and> (\<forall>blk\<in>set qr. block_map blk = amap
         \<and> TimeRange_call (amap ''Time_start'') (amap ''Time_end'') = Inr (time blk))"
proof (induction urls arbitrary: n qr)
  case Nil
  then show ?case by simp
next
  case (Cons u urls)
  show ?case
  proof (cases n)
    case 0
    with Cons.prems show ?thesis by simp
  next
    case (Suc k)
    with Cons.prems obtain blk rest where
      blk: "QueryResponseBlock_init amap u None = Inr blk"
      and rest: "iter_pairs amap (zip urls (replicate k None)) = Inr rest"
      and qr: "qr = blk # rest"
      by (auto split: sum.splits)
    from blk have "url blk = u" "block_map blk = amap"
      "TimeRange_call (amap ''Time_start'') (amap ''Time_end'') = Inr (time blk)"
      by (auto simp: QueryResponseBlock_init_def split: sum.splits)
    with Cons.IH [OF rest] qr Suc show ?thesis by simp
  qed
qed

lemma create_no_times:
  assumes "create amap urls None = Inr qr"
  shows "map url qr = urls"
    and "\<forall>blk\<in>set qr. block_map blk = amap
           \<and> TimeRange_call (amap ''Time_start'') (amap ''Time_end'') = Inr (time blk)"
  using iter_pairs_no_times [of amap urls "length urls" qr] assms
  by (simp_all add: create_def iter_urls_def)

lemma TimeRange_call_Inr:
  "TimeRange_call a b = Inr tr \<Longrightarrow> \<exists>s e. a = Some (PyTime s) \<and> b = Some (PyTime e) \<and> tr = TimeRange s e"
  by (induction a b rule: TimeRange_call.induct) auto

text \<open>
  C7. When the client does not supply \<^verbatim>\<open>_get_time_for_url\<close> (it returns
  \<^verbatim>\<open>NotImplemented\<close>), every record of the \<^verbatim>\<open>QueryResponse\<close> that
  \<^verbatim>\<open>search\<close> returns has, as its time, the interval from the \<^verbatim>\<open>Time_start\<close>
  entry to the \<^verbatim>\<open>Time_end\<close> entry of the dictionary handed to the client; there
  is one record for each URL the client returned, in order.
\<close>

theorem search_time_fallback:
  assumes "\<forall>d urls. get_time_for_url self d urls = Inr NotImplemented"
    and "search self m args kwargs = (Inr qr, m')"
  shows "fst (search_kwergs self m args kwargs) = Inr m'
       \<and> get_url_for_timerange self (m' ''TimeRange'') m' = Inr (map url qr)
       \<and> (\<forall>blk\<in>set qr. \<exists>s e. m' ''Time_start'' = Some (PyTime s)
                              \<and> m' ''Time_end'' = Some (PyTime e)
                              \<and> time blk = TimeRange s e)"
proof -
  obtain r m0 where kw: "search_kwergs self m args kwargs = (r, m0)"
    by (cases "search_kwergs self m args kwargs")
  from assms(2) kw obtain kwergs where r: "r = Inr kwergs"
    by (cases r) (auto simp: search_def)
  have empty: "kwargs = []" using kw r by (auto simp: search_kwergs_def split: if_splits)
  have same: "kwergs = m0"
    using kw r empty by (auto simp: search_kwergs_def split: prod.splits sum.splits)
  obtain urls where urls: "get_url_for_timerange self (m0 ''TimeRange'') m0 = Inr urls"
    using assms(2) kw r same by (cases "get_url_for_timerange self (m0 ''TimeRange'') m0") (auto simp: search_def)
  have made: "create m0 urls None = Inr qr" and m': "m' = m0"
    using assms kw r same urls by (auto simp: search_def split: if_splits)
  from create_no_times [OF made] TimeRange_call_Inr
  have "map url qr = urls"
    and "\<forall>blk\<in>set qr. \<exists>s e. m0 ''Time_start'' = Some (PyTime s)
                              \<and> m0 ''Time_end'' = Some (PyTime e)
                              \<and> time blk = TimeRange s e"
    by blast+
  with kw r same urls m' show ?thesis by simp
qed

theorem search_time_fallback_witness:
  "(\<forall>d urls. get_time_for_url demo_client d urls = Inr NotImplemented)
   \<and> (\<exists>qr m'. search demo_client Map.empty [TimeAttr (1::nat) 2, ValueAttr ''Instrument'' ''eit''] []
                 = (Inr qr, m')
        \<and> map url qr = [''http://host/data/a.fits'', ''http://host/data/b.fits'']
        \<and> (\<forall>blk\<in>set qr. time blk = TimeRange 1 2))"
proof -
  have cap: "\<forall>d urls. get_time_for_url demo_client d urls = Inr NotImplemented"
    by (simp add: demo_client_def)
  obtain qr m' where run:
    "search demo_client Map.empty [TimeAttr (1::nat) 2, ValueAttr ''Instrument'' ''eit''] [] = (Inr qr, m')"
    by (simp add: search_def search_kwergs_def makeargs_def demo_client_def create_def
        iter_urls_def QueryResponseBlock_init_def py_lower_def lower_char_def)
  have start: "m' ''Time_start'' = Some (PyTime 1)" and stop: "m' ''Time_end'' = Some (PyTime 2)"
    and urls: "get_url_for_timerange demo_client (m' ''TimeRange'') m'
                 = Inr [''http://host/data/a.fits'', ''http://host/data/b.fits'']"
    using run
    by (auto simp: search_def search_kwergs_def makeargs_def demo_client_def create_def
        iter_urls_def QueryResponseBlock_init_def py_lower_def lower_char_def)
  from search_time_fallback [OF cap run] start stop urls
  have recs: "map url qr = [''http://host/data/a.fits'', ''http://host/data/b.fits'']
      \<and> (\<forall>blk\<in>set qr. time blk = TimeRange 1 2)"
    by auto
  show ?thesis
    by (rule conjI [OF cap], rule exI [of _ qr], rule exI [of _ m'], rule conjI [OF run recs])
qed

section \<open>Properties of \<^verbatim>\<open>_get_full_filenames\<close> and \<^verbatim>\<open>fetch\<close>\<close>

lemma assign_fname_template:
  "assign_fname e path Unbound = FnameStr tmpl \<Longrightarrow> assign_fname e path fname = FnameStr tmpl"
  by (cases path) (auto split: if_splits)

lemma format_fname_template_error:
  "str_format e tmpl d = Inl err \<Longrightarrow> format_fname e (FnameStr tmpl) d = Inl err"
  by (simp add: format_fname_def)

lemma format_fname_template_ok:
  "str_format e tmpl d = Inr s \<Longrightarrow> \<exists>r. format_fname e (FnameStr tmpl) d = Inr r"
  by (simp add: format_fname_def Let_def)

text \<open>
  The loop raises the exception of the first record whose template does not format:
  \<open>k\<close> counts the records from the current index \<open>i\<close>.
\<close>

lemma full_filenames_loop_first_error:
  assumes tmpl: "assign_fname e path Unbound = FnameStr tmpl"
  shows "k < length fs \<Longrightarrow> i + k < length qres \<Longrightarrow>
         str_format e tmpl (temp_dict (qres ! (i + k)) (fs ! k)) = Inl err \<Longrightarrow>
         (\<forall>l<k. \<exists>s. str_format e tmpl
                        (temp_dict (qres ! (i + l)) (fs ! l)) = Inr s) \<Longrightarrow>
         (full_filenames_loop e qres path i fname fs :: ('s, 'u) accessor list result) = Inl err"
proof (induction fs arbitrary: i k fname)
  case Nil
  then show ?case by simp
next
  case (Cons f fs)
  show ?case
  proof (cases k)
    case 0
    have i: "i < length qres" using Cons.prems(2) by simp
    have "str_format e tmpl (temp_dict (qres ! i) f) = Inl err"
      using Cons.prems(3) unfolding 0 by (simp only: add_0_right nth_Cons_0)
    then have "format_fname e (FnameStr tmpl)
        (temp_dict (qres ! i) f) = Inl err"
      by (rule format_fname_template_error)
    then show ?thesis using i by (simp add: assign_fname_template [OF tmpl])
  next
    case (Suc k')
    have i: "i < length qres" using Cons.prems(2) by simp
    from Cons.prems(4) Suc have
      "\<exists>s. str_format e tmpl (temp_dict (qres ! (i + 0)) ((f # fs) ! 0)) = Inr s"
      by blast
    then obtain s where "str_format e tmpl (temp_dict (qres ! i) f) = Inr s"
      by auto
    then obtain r where ok:
      "format_fname e (FnameStr tmpl) (temp_dict (qres ! i) f) = Inr r"
      using format_fname_template_ok by blast
    have rec: "(full_filenames_loop e qres path (Suc i) (FnamePartial r) fs :: ('s, 'u) accessor list result) = Inl err"
    proof (rule Cons.IH [where k = k' and i = "Suc i"])
      show "k' < length fs" using Cons.prems(1) Suc by simp
      show "Suc i + k' < length qres" using Cons.prems(2) Suc by simp
      show "str_format e tmpl (temp_dict (qres ! (Suc i + k')) (fs ! k')) = Inl err"
        using Cons.prems(3) Suc by simp
      show "\<forall>l<k'. \<exists>s. str_format e tmpl
                (temp_dict (qres ! (Suc i + l)) (fs ! l)) = Inr s"
      proof (intro allI impI)
        fix l assume "l < k'"
        then have "Suc l < k" using Suc by simp
        with Cons.prems(4) have "\<exists>s. str_format e tmpl
            (temp_dict (qres ! (i + Suc l)) ((f # fs) ! Suc l)) = Inr s"
          by blast
        then show "\<exists>s. str_format e tmpl
            (temp_dict (qres ! (Suc i + l)) (fs ! l)) = Inr s"
          by simp
      qed
    qed
    show ?thesis using i ok rec by (simp add: assign_fname_template [OF tmpl])
  qed
qed

lemma full_filenames_loop_some_error:
  assumes tmpl: "assign_fname e path Unbound = FnameStr tmpl"
  shows "k < length fs \<Longrightarrow> i + k < length qres \<Longrightarrow>
         str_format e tmpl (temp_dict (qres ! (i + k)) (fs ! k)) = Inl err \<Longrightarrow>
         \<exists>err'. (full_filenames_loop e qres path i fname fs :: ('s, 'u) accessor list result) = Inl err'"
proof (induction fs arbitrary: i k fname)
  case Nil
  then show ?case by simp
next
  case (Cons f fs)
  have i: "i < length qres" using Cons.prems(2) by simp
  show ?case
  proof (cases "format_fname e (FnameStr tmpl) (temp_dict (qres ! i) f)")
    case (Inl err')
    then show ?thesis using i by (simp add: assign_fname_template [OF tmpl])
  next
    case (Inr r)
    have "k \<noteq> 0"
    proof
      assume "k = 0"
      with Cons.prems(3) have
        "str_format e tmpl (temp_dict (qres ! i) f) = Inl err"
        by (simp only: add_0_right nth_Cons_0)
      then have "format_fname e (FnameStr tmpl)
          (temp_dict (qres ! i) f) = Inl err"
        by (rule format_fname_template_error)
      with Inr show False by simp
    qed
    then obtain k' where k: "k = Suc k'" by (cases k) auto
    have "\<exists>err'. (full_filenames_loop e qres path (Suc i) (FnamePartial r) fs :: ('s, 'u) accessor list result) = Inl err'"
    proof (rule Cons.IH [where k = k' and i = "Suc i"])
      show "k' < length fs" using Cons.prems(1) k by simp
      show "Suc i + k' < length qres" using Cons.prems(2) k by simp
      show "str_format e tmpl (temp_dict (qres ! (Suc i + k')) (fs ! k')) = Inl err"
        using Cons.prems(3) k by simp
    qed
    then show ?thesis using i Inr by (auto simp: assign_fname_template [OF tmpl])
  qed
qed

text \<open>
  Fail fast, where the code forms a template (\<^verbatim>\<open>path\<close> is \<^verbatim>\<open>None\<close> or a
  string without the placeholder). Let the template name a field that the dictionary of
  record \<open>i\<close> lacks, so that formatting it raises \<open>KeyError\<close>. Then \<^verbatim>\<open>fetch\<close>
  raises and hands no task to the downloader; the exception is the one of the first
  record whose template does not format, hence this \<open>KeyError\<close> when the records
  before \<open>i\<close> format.
\<close>

lemma fetch_template_error_before_download:
  assumes "check_path e path = Inr path1"
    and "assign_fname e path1 Unbound = FnameStr tmpl"
    and "i < length qres"
    and "str_format e tmpl (fetch_dict qres i) = Inl (KeyError k)"
  shows "(\<exists>err. (fetch e qres path :: 's fetched) = (Inl err, []))
       \<and> ((\<forall>l<i. \<exists>s. str_format e tmpl (fetch_dict qres l) = Inr s)
            \<longrightarrow> (fetch e qres path :: 's fetched) = (Inl (KeyError k), []))"
proof -
  define fns where "fns = map (\<lambda>u. last (split_on CHR ''/'' [] u)) (map url qres)"
  have len: "length fns = length qres" by (simp add: fns_def)
  have dict: "\<And>l. l < length qres \<Longrightarrow>
      temp_dict (qres ! l) (fns ! l) = fetch_dict qres l"
    by (simp add: fns_def fetch_dict_def)
  have fail: "str_format e tmpl (temp_dict (qres ! i) (fns ! i)) = Inl (KeyError k)"
    using assms(3,4) dict by simp
  have run: "(fetch e qres path :: 's fetched) =
      (case get_full_filenames e qres fns path1 of
         Inl err \<Rightarrow> (Inl err, [])
       | Inr paths \<Rightarrow> (Inr (map (\<lambda>x. [x]) (map url qres)),
                        foldl download [] (zip (map url qres) paths)))"
    using assms(1) by (simp add: fetch_def fns_def Let_def)
  have fail0: "str_format e tmpl (temp_dict (qres ! (0 + i)) (fns ! i)) = Inl (KeyError k)"
    using fail by simp
  have i: "i < length fns" "0 + i < length qres" using assms(3) len by simp_all
  obtain err where some:
    "(get_full_filenames e qres fns path1 :: ('s, string) accessor list result) = Inl err"
    using full_filenames_loop_some_error [OF assms(2) i fail0, of Unbound]
    by (auto simp: get_full_filenames_def)
  have first:
    "(get_full_filenames e qres fns path1 :: ('s, string) accessor list result) = Inl (KeyError k)"
    if "\<forall>l<i. \<exists>s. str_format e tmpl (fetch_dict qres l) = Inr s"
  proof -
    have "\<forall>l<i. \<exists>s. str_format e tmpl
        (temp_dict (qres ! (0 + l)) (fns ! l)) = Inr s"
      using that dict assms(3) by auto
    then show ?thesis
      using full_filenames_loop_first_error [OF assms(2) i fail0, of Unbound]
      by (simp add: get_full_filenames_def)
  qed
  show ?thesis using run some first by auto
qed


lemma fetch_template_error_before_download_example:
  "check_path demo_env (PathStr ''/data/{instrument}'') = Inr (PathStr ''/data/{instrument}'')
   \<and> assign_fname demo_env (PathStr ''/data/{instrument}'') Unbound
         = FnameStr ''/data/{instrument}/{file}''
   \<and> (1::nat) < length [demo_block ''http://host/data/a.fits'' [(''instrument'', ''eit'')],
                          demo_block ''http://host/data/b.fits'' []]
   \<and> str_format demo_env ''/data/{instrument}/{file}''
         (fetch_dict [demo_block ''http://host/data/a.fits'' [(''instrument'', ''eit'')],
                      demo_block ''http://host/data/b.fits'' []] 1)
         = Inl (KeyError ''instrument'')
   \<and> str_format demo_env ''/data/{instrument}/{file}''
         (fetch_dict [demo_block ''http://host/data/a.fits'' [(''instrument'', ''eit'')],
                      demo_block ''http://host/data/b.fits'' []] 0)
         = Inr ''/data/eit/a.fits''
   \<and> (fetch demo_env [demo_block ''http://host/data/a.fits'' [(''instrument'', ''eit'')],
                        demo_block ''http://host/data/b.fits'' []]
          (PathStr ''/data/{instrument}'') :: unit fetched)
       = (Inl (KeyError ''instrument''), [])"
proof -
  let ?qres = "[demo_block ''http://host/data/a.fits'' [(''instrument'', ''eit'')],
                demo_block ''http://host/data/b.fits'' []]"
  have a: "check_path demo_env (PathStr ''/data/{instrument}'') = Inr (PathStr ''/data/{instrument}'')"
    by (simp add: check_path_def)
  have b: "assign_fname demo_env (PathStr ''/data/{instrument}'') Unbound
         = FnameStr ''/data/{instrument}/{file}''"
    by (simp add: path_join_def)
  have c: "(1::nat) < length ?qres" by simp
  have d: "str_format demo_env ''/data/{instrument}/{file}'' (fetch_dict ?qres 1)
         = Inl (KeyError ''instrument'')"
    by (simp add: demo_env_def fetch_dict_def temp_dict_def demo_block_def)
  have e: "str_format demo_env ''/data/{instrument}/{file}'' (fetch_dict ?qres 0)
         = Inr ''/data/eit/a.fits''"
    by (simp add: demo_env_def fetch_dict_def temp_dict_def demo_block_def)
  then have "\<forall>l<1. \<exists>s. str_format demo_env ''/data/{instrument}/{file}'' (fetch_dict ?qres l) = Inr s"
    by simp
  with fetch_template_error_before_download [OF a b c d]
  have "(fetch demo_env ?qres (PathStr ''/data/{instrument}'') :: unit fetched)
       = (Inl (KeyError ''instrument''), [])"
    by blast
  with a b c d e show ?thesis by blast
qed

lemma format_fname_assigned:
  assumes "\<forall>s. fname \<noteq> FnameStr s"
    and "format_fname e (assign_fname e path fname) d = Inr r"
  shows "format_fname e (assign_fname e path Unbound) d = Inr r"
proof (cases "assign_fname e path fname = fname")
  case True
  with assms show ?thesis by (cases fname) (auto simp: format_fname_def)
next
  case False
  then show ?thesis using assms(2) by (cases path) (auto split: if_splits)
qed

lemma full_filenames_loop_paths:
  "\<forall>s. fname \<noteq> FnameStr s \<Longrightarrow>
   full_filenames_loop e qres path i fname fs = Inr paths \<Longrightarrow>
     length paths = length fs
   \<and> (\<forall>k<length fs. \<exists>resolved.
          format_fname e (assign_fname e path Unbound) (temp_dict (qres ! (i + k)) (fs ! k))
            = Inr resolved
        \<and> paths ! k = simple_path resolved)"
proof (induction fs arbitrary: i fname paths)
  case Nil
  then show ?case by simp
next
  case (Cons f fs)
  from Cons.prems(2) obtain r ps where
    r: "format_fname e (assign_fname e path fname) (temp_dict (qres ! i) f) = Inr r"
    and ps: "full_filenames_loop e qres path (Suc i) (FnamePartial r) fs = Inr ps"
    and paths: "paths = simple_path r # ps"
    by (auto simp: Let_def split: if_splits sum.splits)
  have r0: "format_fname e (assign_fname e path Unbound) (temp_dict (qres ! i) f) = Inr r"
    using format_fname_assigned [OF Cons.prems(1) r] .
  have "\<forall>s. FnamePartial r \<noteq> FnameStr s" by simp
  from Cons.IH [OF this ps] have len: "length ps = length fs"
    and rest: "\<forall>k<length fs. \<exists>resolved.
          format_fname e (assign_fname e path Unbound) (temp_dict (qres ! (Suc i + k)) (fs ! k))
            = Inr resolved
        \<and> ps ! k = simple_path resolved"
    by blast+
  have "\<exists>resolved.
          format_fname e (assign_fname e path Unbound) (temp_dict (qres ! (i + k)) ((f # fs) ! k))
            = Inr resolved
        \<and> paths ! k = simple_path resolved" if "k < length (f # fs)" for k
  proof (cases k)
    case 0
    with r0 paths show ?thesis by simp
  next
    case (Suc k')
    with that have "k' < length fs" by simp
    with rest Suc paths show ?thesis by simp
  qed
  with len paths show ?case by simp
qed

text \<open>
  C9. Each element of the list that \<^verbatim>\<open>_get_full_filenames\<close> returns is
  \<^verbatim>\<open>partial(simple_path, fname)\<close> for the path \<^verbatim>\<open>fname\<close> resolved for the
  record at that position: called with any socket and URL it returns that path, and
  the arguments do not change the result.
\<close>

theorem get_full_filenames_accessors:
  fixes paths :: "('s, 'u) accessor list"
  assumes "get_full_filenames e qres filenames path = Inr paths"
  shows "length paths = length filenames
       \<and> (\<forall>i<length paths. \<exists>resolved.
            format_fname e (assign_fname e path Unbound) (temp_dict (qres ! i) (filenames ! i))
              = Inr resolved
          \<and> paths ! i = simple_path resolved
          \<and> (\<forall>sock aurl. (paths ! i) sock aurl = resolved))"
proof -
  have "\<forall>s. Unbound \<noteq> FnameStr s" by simp
  from full_filenames_loop_paths [OF this, of e qres path 0 filenames paths] assms
  have len: "length paths = length filenames"
    and each: "\<forall>k<length filenames. \<exists>resolved.
          format_fname e (assign_fname e path Unbound) (temp_dict (qres ! k) (filenames ! k))
            = Inr resolved
        \<and> paths ! k = simple_path resolved"
    by (simp_all add: get_full_filenames_def)
  have "\<exists>resolved.
            format_fname e (assign_fname e path Unbound) (temp_dict (qres ! i) (filenames ! i))
              = Inr resolved
          \<and> paths ! i = simple_path resolved
          \<and> (\<forall>sock aurl. (paths ! i) sock aurl = resolved)" if "i < length paths" for i
  proof -
    from that len each obtain resolved where
      "format_fname e (assign_fname e path Unbound) (temp_dict (qres ! i) (filenames ! i))
         = Inr resolved" and "paths ! i = simple_path resolved"
      by auto
    then show ?thesis by (auto simp: simple_path_def)
  qed
  with len show ?thesis by blast
qed

theorem get_full_filenames_accessors_witness:
  "(get_full_filenames demo_env
      [demo_block ''http://host/data/a.fits'' [(''instrument'', ''eit'')],
       demo_block ''http://host/data/b.fits'' [(''instrument'', ''eit'')]]
      [''a.fits'', ''b.fits''] (PathStr ''/data/{instrument}'') :: (unit, string) accessor list result)
     = Inr [simple_path ''/data/eit/a.fits'', simple_path ''/data/eit/b.fits.0'']
   \<and> (\<forall>sock aurl. (([simple_path ''/data/eit/a.fits'', simple_path ''/data/eit/b.fits.0'']
                         :: (unit, string) accessor list) ! 1) sock aurl = ''/data/eit/b.fits.0'')"
proof -
  have run: "(get_full_filenames demo_env
      [demo_block ''http://host/data/a.fits'' [(''instrument'', ''eit'')],
       demo_block ''http://host/data/b.fits'' [(''instrument'', ''eit'')]]
      [''a.fits'', ''b.fits''] (PathStr ''/data/{instrument}'') :: (unit, string) accessor list result)
     = Inr [simple_path ''/data/eit/a.fits'', simple_path ''/data/eit/b.fits.0'']"
    by (simp add: get_full_filenames_def format_fname_def temp_dict_def demo_env_def
        demo_block_def path_join_def)
  from get_full_filenames_accessors [OF run]
  have "\<exists>resolved. ([simple_path ''/data/eit/a.fits'', simple_path ''/data/eit/b.fits.0'']
           :: (unit, string) accessor list) ! 1 = simple_path resolved
        \<and> (\<forall>sock aurl. (([simple_path ''/data/eit/a.fits'', simple_path ''/data/eit/b.fits.0'']
                         :: (unit, string) accessor list) ! 1) sock aurl = resolved)"
    by auto
  then have "\<forall>sock aurl. (([simple_path ''/data/eit/a.fits'', simple_path ''/data/eit/b.fits.0'']
                         :: (unit, string) accessor list) ! 1) sock aurl = ''/data/eit/b.fits.0''"
    by (auto simp: simple_path_def)
  with run show ?thesis by blast
qed


text \<open>
  The defect behind it, for any environment: a string path that holds the placeholder
  leaves \<^verbatim>\<open>fname\<close> unassigned, and the first record raises.
\<close>

lemma get_full_filenames_placeholder:
  assumes "py_in ''{file}'' p" and "qres \<noteq> []" and "filenames \<noteq> []"
  shows "(get_full_filenames e qres filenames (PathStr p) :: ('s, 'u) accessor list result)
           = Inl (UnboundLocalError ''fname'')"
proof -
  from assms(3) obtain f fs where "filenames = f # fs" by (cases filenames) auto
  with assms(1,2) show ?thesis
    by (simp add: get_full_filenames_def format_fname_def)
qed

text \<open>
  C2, on the code: with one record and the path \<^verbatim>\<open>/data/{file}\<close>, which holds
  the placeholder, neither branch of the \<^verbatim>\<open>if\<close>/\<^verbatim>\<open>elif\<close> assigns
  \<^verbatim>\<open>fname\<close>, and \<^verbatim>\<open>fname.format\<close> raises \<open>UnboundLocalError\<close>, in
  \<^verbatim>\<open>_get_full_filenames\<close> and so in \<^verbatim>\<open>fetch\<close>.
\<close>

theorem get_full_filenames_placeholder_unbound:
  "(get_full_filenames demo_env [demo_block ''http://host/data/a.fits'' []] [''a.fits'']
      (PathStr ''/data/{file}'') :: (unit, string) accessor list result)
     = Inl (UnboundLocalError ''fname'')
   \<and> (fetch demo_env [demo_block ''http://host/data/a.fits'' []] (PathStr ''/data/{file}'')
         :: unit fetched)
     = (Inl (UnboundLocalError ''fname''), [])"
  by (simp add: get_full_filenames_def fetch_def check_path_def format_fname_def)

text \<open>
  C8, on the code: the path \<^verbatim>\<open>/data/{instrument}/{file}\<close> names the field
  \<^verbatim>\<open>instrument\<close>, which the record lacks, so formatting it is a \<open>KeyError\<close>.
  Since the path holds the placeholder, \<^verbatim>\<open>fname\<close> is never assigned (as for C2)
  and \<^verbatim>\<open>fetch\<close> raises \<open>UnboundLocalError\<close> instead, still with no task handed
  to the downloader.
\<close>

theorem fetch_placeholder_missing_field:
  "str_format demo_env ''/data/{instrument}/{file}''
     (fetch_dict [demo_block ''http://host/data/a.fits'' []] 0) = Inl (KeyError ''instrument'')
   \<and> (fetch demo_env [demo_block ''http://host/data/a.fits'' []]
         (PathStr ''/data/{instrument}/{file}'') :: unit fetched)
     = (Inl (UnboundLocalError ''fname''), [])"
  by (simp add: get_full_filenames_def fetch_def check_path_def format_fname_def
      demo_env_def fetch_dict_def temp_dict_def demo_block_def)

end
